theory Spec2Isabelle
  imports Complex_Main "HOL-Library.Sublist" "HOL-Library.Multiset"
begin

section \<open>Python strings\<close>

text \<open>
  A Python \<^verbatim>\<open>str\<close> is a sequence of Unicode code points, so it is modelled as a list of
  natural numbers. \<open>py\<close> reads an ASCII literal; the line feed is the code point 10.
\<close>

type_synonym str = "nat list"

definition py :: "string \<Rightarrow> str" where
  "py s = map of_char s"

definition nl :: str where
  "nl = [10]"

text \<open>
  \<^verbatim>\<open>str.isspace\<close> on one code point: the ASCII white space (9 to 13, 28 to 32) and the
  Unicode white space beyond it (NEL, NBSP, Ogham space mark, the en/em spaces, the line
  and paragraph separators, narrow NBSP, medium mathematical space, ideographic space).
\<close>

definition isspace :: "nat \<Rightarrow> bool" where
  "isspace c \<longleftrightarrow>
     (9 \<le> c \<and> c \<le> 13) \<or> (28 \<le> c \<and> c \<le> 32) \<or> c = 133 \<or> c = 160 \<or> c = 5760 \<or>
     (8192 \<le> c \<and> c \<le> 8202) \<or> c = 8232 \<or> c = 8233 \<or> c = 8239 \<or> c = 8287 \<or>
     c = 12288"

text \<open>\<^verbatim>\<open>s.strip()\<close>: leading and trailing white space removed.\<close>

definition strip :: "str \<Rightarrow> str" where
  "strip s = rev (dropWhile isspace (rev (dropWhile isspace s)))"

text \<open>
  \<^verbatim>\<open>s.lower()\<close>. The letters \<open>A\<close> to \<open>Z\<close> are the only ASCII code points it changes.
  Beyond ASCII Python lowers other cased letters as well; none of them is lowered to a
  letter of the ASCII marker that the pipeline searches for (the only two that produce an
  ASCII letter are U+0130, giving \<open>i\<close>, and U+212A, giving \<open>k\<close>), so the model leaves the
  code points beyond ASCII as they are.
\<close>

definition lower_cp :: "nat \<Rightarrow> nat" where
  "lower_cp c = (if 65 \<le> c \<and> c \<le> 90 then c + 32 else c)"

definition lower :: "str \<Rightarrow> str" where
  "lower s = map lower_cp s"

text \<open>\<^verbatim>\<open>sep.join(xs)\<close>.\<close>

fun join :: "str \<Rightarrow> str list \<Rightarrow> str" where
  "join sep [] = []"
| "join sep [x] = x"
| "join sep (x # y # ys) = x @ sep @ join sep (y # ys)"

text \<open>The operator \<^verbatim>\<open>a in b\<close> on two strings is \<^const>\<open>sublist\<close>: a contiguous occurrence.\<close>

section \<open>Data of the pipeline\<close>

text \<open>
  An exception caught by \<^verbatim>\<open>except Exception\<close>; all the program does with one is to format
  it, so it is identified with \<^verbatim>\<open>str(e)\<close>.
\<close>

datatype exn = Exception str

fun str_of :: "exn \<Rightarrow> str" where
  "str_of (Exception m) = m"

datatype role = System | Human | AI

type_synonym message = "role \<times> str"

text \<open>The keyword arguments of \<^verbatim>\<open>client.chat.completions.create\<close>.\<close>

record gpt_request =
  model :: str
  messages :: "(str \<times> str) list"
  max_tokens :: nat
  temperature :: rat

text \<open>
  The external collaborators, as parameters. Each is given the number of calls made to it
  before, so that a service may answer the same request differently each time.
  \<^item> \<open>retriever_invoke\<close>: \<^verbatim>\<open>retriever.invoke(question)\<close>, the \<^verbatim>\<open>page_content\<close> of each
    document returned;
  \<^item> \<open>llm_chat_invoke\<close>: the Bedrock chat model on a list of messages, the \<^verbatim>\<open>content\<close> of
    its reply;
  \<^item> \<open>completions_create\<close>: the OpenAI client, the \<^verbatim>\<open>message.content\<close> of each of its
    \<^verbatim>\<open>choices\<close> (\<open>None\<close> is Python's \<^verbatim>\<open>None\<close>).
\<close>

record env =
  retriever_invoke :: "nat \<Rightarrow> str \<Rightarrow> exn + str list"
  llm_chat_invoke :: "nat \<Rightarrow> message list \<Rightarrow> exn + str"
  completions_create :: "nat \<Rightarrow> gpt_request \<Rightarrow> exn + str option list"

text \<open>
  The state of the process: the global \<^verbatim>\<open>store\<close> of session histories, the requests made
  to each collaborator so far, and what was printed.
\<close>

record world =
  store :: "str \<rightharpoonup> message list"
  retriever_log :: "str list"
  bedrock_log :: "message list list"
  chatgpt_log :: "gpt_request list"
  stdout :: "str list"

section \<open>Session memory\<close>

text \<open>
  \<^verbatim>\<open>get_session_history\<close> (the same in both files). Python returns the history object kept
  under the key; the model returns its messages, the key standing for the object.
\<close>

definition get_session_history :: "world \<Rightarrow> str \<Rightarrow> message list \<times> world" where
  "get_session_history w session_id =
     (let w' = (if session_id \<notin> dom (store w)
                then w\<lparr>store := (store w)(session_id \<mapsto> [])\<rparr> else w)
      in (case store w' session_id of Some h \<Rightarrow> h | None \<Rightarrow> [], w'))"

text \<open>
  \<^verbatim>\<open>with_message_history.invoke(input, config)\<close>, where \<^verbatim>\<open>with_message_history\<close> is
  \<^verbatim>\<open>RunnableWithMessageHistory(llm_chat, get_session_history)\<close> of the LangChain library:
  it fetches the history of the session, calls the model on the history followed by the
  input messages and, when the model has answered, adds the input messages and the answer
  to the history. An exception of the model propagates and nothing is added.
\<close>

definition with_message_history_invoke ::
  "env \<Rightarrow> world \<Rightarrow> message list \<Rightarrow> str \<Rightarrow> (exn + str) \<times> world" where
  "with_message_history_invoke e w input session_id =
     (let (h, w1) = get_session_history w session_id;
          w2 = w1\<lparr>bedrock_log := bedrock_log w1 @ [h @ input]\<rparr>
      in case llm_chat_invoke e (length (bedrock_log w1)) (h @ input) of
           Inl ex \<Rightarrow> (Inl ex, w2)
         | Inr content \<Rightarrow>
             (Inr content, w2\<lparr>store := (store w2)(session_id \<mapsto> h @ input @ [(AI, content)])\<rparr>))"

section \<open>Prompt\<close>

definition SECURITY_CONTEXT :: str where
  "SECURITY_CONTEXT =
     nl @ py ''You are an AWS Security & Compliance expert.'' @ nl @
     py ''Explain cybersecurity and compliance frameworks (FISMA, NIST 800-53, CIS, FedRAMP)'' @ nl @
     py ''and how to implement them using AWS services such as IAM, Config, GuardDuty,'' @ nl @
     py ''SecurityHub, CloudTrail, and CloudWatch.'' @ nl @
     py ''Be concise and provide AWS service mapping examples when possible.'' @ nl"

text \<open>The local \<^verbatim>\<open>ctx\<close>: the retrieved texts joined by a blank line.\<close>

definition ctx :: "str list \<Rightarrow> str" where
  "ctx ctx_docs = (if ctx_docs \<noteq> [] then join (nl @ nl) ctx_docs else [])"

text \<open>The local \<^verbatim>\<open>prompt\<close>, an f-string over \<^verbatim>\<open>SECURITY_CONTEXT\<close>, \<^verbatim>\<open>ctx\<close> and the question.\<close>

definition prompt :: "str list \<Rightarrow> str \<Rightarrow> str" where
  "prompt ctx_docs question =
     SECURITY_CONTEXT @ nl @ nl @ py ''Context:'' @ nl @ ctx ctx_docs @ nl @ nl @
     py ''Question: '' @ question @ nl"

section \<open>Chat functions\<close>

text \<open>A parameter with the default \<^verbatim>\<open>session_id="sec-bot-ui"\<close>: \<open>None\<close> when the caller omits it.\<close>

definition session_id_arg :: "str option \<Rightarrow> str" where
  "session_id_arg a = (case a of None \<Rightarrow> py ''sec-bot-ui'' | Some s \<Rightarrow> s)"

text \<open>\<^verbatim>\<open>ask_bedrock\<close> of \<^verbatim>\<open>app+gpt.py\<close>.\<close>

definition ask_bedrock :: "env \<Rightarrow> world \<Rightarrow> str \<Rightarrow> str option \<Rightarrow> (exn + str) \<times> world" where
  "ask_bedrock e w question session_id =
     (let w1 = w\<lparr>retriever_log := retriever_log w @ [question]\<rparr>
      in case retriever_invoke e (length (retriever_log w)) question of
           Inl ex \<Rightarrow> (Inl ex, w1)
         | Inr ctx_docs \<Rightarrow>
             with_message_history_invoke e w1 [(Human, prompt ctx_docs question)]
               (session_id_arg session_id))"

text \<open>\<^verbatim>\<open>ask_secure_bot\<close> of \<^verbatim>\<open>app.py\<close>, which has no fallback: the same body.\<close>

definition app_ask_secure_bot ::
  "env \<Rightarrow> world \<Rightarrow> str \<Rightarrow> str option \<Rightarrow> (exn + str) \<times> world" where
  "app_ask_secure_bot e w question session_id =
     (let w1 = w\<lparr>retriever_log := retriever_log w @ [question]\<rparr>
      in case retriever_invoke e (length (retriever_log w)) question of
           Inl ex \<Rightarrow> (Inl ex, w1)
         | Inr ctx_docs \<Rightarrow>
             with_message_history_invoke e w1 [(Human, prompt ctx_docs question)]
               (session_id_arg session_id))"

text \<open>
  \<^verbatim>\<open>ask_chatgpt\<close>. Its local \<^verbatim>\<open>prompt\<close> is computed and never used. \<^verbatim>\<open>choices[0]\<close> raises
  on an empty list and \<^verbatim>\<open>.strip()\<close> raises on \<^verbatim>\<open>None\<close>.
\<close>

definition chatgpt_request :: "str \<Rightarrow> gpt_request" where
  "chatgpt_request question =
     \<lparr>model = py ''gpt-4o-mini'',
      messages = [(py ''system'', SECURITY_CONTEXT), (py ''user'', question)],
      max_tokens = 500,
      temperature = 2 / 10\<rparr>"

definition ask_chatgpt :: "env \<Rightarrow> world \<Rightarrow> str \<Rightarrow> (exn + str) \<times> world" where
  "ask_chatgpt e w question =
     (let w1 = w\<lparr>chatgpt_log := chatgpt_log w @ [chatgpt_request question]\<rparr>
      in case completions_create e (length (chatgpt_log w)) (chatgpt_request question) of
           Inl ex \<Rightarrow> (Inl ex, w1)
         | Inr choices \<Rightarrow>
             (case choices of
                [] \<Rightarrow> (Inl (Exception (py ''list index out of range'')), w1)
              | None # _ \<Rightarrow>
                  (Inl (Exception ([39] @ py ''NoneType'' @ [39] @
                     py '' object has no attribute '' @ [39] @ py ''strip'' @ [39])), w1)
              | Some content # _ \<Rightarrow> (Inr (strip content), w1)))"

text \<open>The three f-strings that \<^verbatim>\<open>ask_secure_bot\<close> returns.\<close>

definition bedrock_label :: str where
  "bedrock_label = [129504] @ py '' **Bedrock:**'' @ nl @ nl"

definition fallback_label :: str where
  "fallback_label = [129302] @ py '' **ChatGPT Fallback:**'' @ nl @ nl"

definition failed_label :: str where
  "failed_label = [10060] @ py '' Both models failed: ''"

text \<open>The \<^verbatim>\<open>except Exception as e\<close> block of \<^verbatim>\<open>ask_secure_bot\<close>.\<close>

definition fallback :: "env \<Rightarrow> world \<Rightarrow> str \<Rightarrow> exn \<Rightarrow> (exn + str) \<times> world" where
  "fallback e w question ex =
     (let w1 = w\<lparr>stdout := stdout w @ [py ''[Fallback] '' @ str_of ex]\<rparr>
      in case ask_chatgpt e w1 question of
           (Inr gpt_answer, w2) \<Rightarrow> (Inr (fallback_label @ gpt_answer), w2)
         | (Inl e2, w2) \<Rightarrow> (Inr (failed_label @ str_of e2), w2))"

text \<open>The test on the answer of Bedrock that raises inside the \<^verbatim>\<open>try\<close>.\<close>

definition degenerate :: "str \<Rightarrow> bool" where
  "degenerate answer \<longleftrightarrow>
     sublist (py ''unable to respond'') (lower answer) \<or> strip answer = []"

text \<open>\<^verbatim>\<open>ask_secure_bot\<close> of \<^verbatim>\<open>app+gpt.py\<close>.\<close>

definition ask_secure_bot :: "env \<Rightarrow> world \<Rightarrow> str \<Rightarrow> str option \<Rightarrow> (exn + str) \<times> world" where
  "ask_secure_bot e w question session_id =
     (case ask_bedrock e w question (Some (session_id_arg session_id)) of
        (Inr answer, w1) \<Rightarrow>
          if degenerate answer
          then fallback e w1 question (Exception (py ''Bedrock failed, switching to ChatGPT''))
          else (Inr (bedrock_label @ answer), w1)
      | (Inl ex, w1) \<Rightarrow> fallback e w1 question ex)"

section \<open>The page\<close>

text \<open>What the page shows after a click: \<^verbatim>\<open>st.markdown\<close>, \<^verbatim>\<open>st.write\<close> or \<^verbatim>\<open>st.error\<close>.\<close>

datatype shown = Markdown str | Write str | Error str

definition error_label :: str where
  "error_label = [9888, 65039] @ py '' Error: ''"

text \<open>
  One run of the script of \<^verbatim>\<open>app+gpt.py\<close> from the line \<^verbatim>\<open>store = {}\<close> to its end, given
  the text of the input field and whether the button was clicked. Streamlit runs the
  script from its first line at every interaction with the page, so the assignment
  \<^verbatim>\<open>store = {}\<close> is executed again before the block of the button: whatever an earlier run
  put in the store is gone. The call of \<^verbatim>\<open>ask_secure_bot\<close> passes the question only.
\<close>

definition ui :: "env \<Rightarrow> world \<Rightarrow> str \<Rightarrow> bool \<Rightarrow> shown option \<times> world" where
  "ui e w user_question button =
     (let w0 = w\<lparr>store := Map.empty\<rparr>
      in if button \<and> user_question \<noteq> []
         then (case ask_secure_bot e w0 user_question None of
                 (Inr answer, w1) \<Rightarrow> (Some (Markdown answer), w1)
               | (Inl ex, w1) \<Rightarrow> (Some (Error (error_label @ str_of ex)), w1))
         else (None, w0))"

text \<open>The same run of the script of \<^verbatim>\<open>app.py\<close>.\<close>

definition app_ui :: "env \<Rightarrow> world \<Rightarrow> str \<Rightarrow> bool \<Rightarrow> shown option \<times> world" where
  "app_ui e w user_question button =
     (let w0 = w\<lparr>store := Map.empty\<rparr>
      in if button \<and> user_question \<noteq> []
         then (case app_ask_secure_bot e w0 user_question None of
                 (Inr answer, w1) \<Rightarrow> (Some (Write answer), w1)
               | (Inl ex, w1) \<Rightarrow> (Some (Error (error_label @ str_of ex)), w1))
         else (None, w0))"

section \<open>The vector store\<close>

text \<open>
  The persisted index is a list of chunk texts with their embeddings, in insertion order.
  The disk holds the \<^verbatim>\<open>*.txt\<close> files of \<^verbatim>\<open>./data\<close> (name and content) and what is at
  \<^verbatim>\<open>security_index\<close>: \<open>None\<close> when the path does not exist.
\<close>

type_synonym 'v index = "(str \<times> 'v) list"

record 'v disk =
  data_txt :: "(str \<times> str) list"
  security_index :: "'v index option"
  embed_log :: "str list list"
  console :: "str list"

text \<open>
  The library calls of \<^verbatim>\<open>build_or_load_index\<close>, as parameters:
  \<^item> \<open>split_documents\<close>: \<^verbatim>\<open>RecursiveCharacterTextSplitter(chunk_size=1000, chunk_overlap=100)\<close>
    on one loaded file, the texts of its chunks;
  \<^item> \<open>embed_documents\<close>: the embedding model on the texts that \<^verbatim>\<open>Chroma.from_documents\<close>
    stores;
  \<^item> \<open>failed_build_leaves\<close>: what is at the path when the embedding has raised.
\<close>

record 'v chroma =
  split_documents :: "str \<Rightarrow> str list"
  embed_documents :: "str list \<Rightarrow> exn + 'v list"
  failed_build_leaves :: "'v index option"

definition loading_msg :: str where
  "loading_msg = [9989] @ py '' Loading existing Chroma index...''"

definition building_msg :: str where
  "building_msg = [9881, 65039] @ py '' Building Chroma index from ./data ...''"

text \<open>
  \<^verbatim>\<open>vectorstore.persist()\<close>: the class \<^verbatim>\<open>Chroma\<close> that the files import from
  \<^verbatim>\<open>langchain_chroma\<close> has no such method, so the call raises \<^verbatim>\<open>AttributeError\<close>.
\<close>

definition persist_error :: exn where
  "persist_error =
     Exception ([39] @ py ''Chroma'' @ [39] @ py '' object has no attribute '' @
                [39] @ py ''persist'' @ [39])"

text \<open>
  \<^verbatim>\<open>build_or_load_index\<close> (the same in both files). \<^verbatim>\<open>Path(INDEX_DIR).exists()\<close> is
  \<open>security_index d \<noteq> None\<close>. \<^verbatim>\<open>Chroma(persist_directory=INDEX_DIR, ...)\<close> opens what is at
  the path; \<^verbatim>\<open>Chroma.from_documents(docs, embedding, persist_directory=INDEX_DIR)\<close> embeds the
  texts and stores each with its vector at the path. The call of \<^verbatim>\<open>persist\<close> that follows
  raises, after the index has been written: the build never prints that the index was
  saved and never returns the vector store.
\<close>

definition build_or_load_index ::
  "'v chroma \<Rightarrow> 'v disk \<Rightarrow> (exn + 'v index) \<times> 'v disk" where
  "build_or_load_index c d =
     (case security_index d of
        Some persisted \<Rightarrow> (Inr persisted, d\<lparr>console := console d @ [loading_msg]\<rparr>)
      | None \<Rightarrow>
          (let d1 = d\<lparr>console := console d @ [building_msg]\<rparr>;
               docs = concat (map (\<lambda>(file, content). split_documents c content) (data_txt d1));
               d2 = d1\<lparr>embed_log := embed_log d1 @ [docs]\<rparr>
           in case embed_documents c docs of
                Inl ex \<Rightarrow> (Inl ex, d2\<lparr>security_index := failed_build_leaves c\<rparr>)
              | Inr vectors \<Rightarrow>
                  (Inl persist_error, d2\<lparr>security_index := Some (zip docs vectors)\<rparr>)))"

text \<open>
  Modelled from the spec: the nearest-neighbour lookup of the vector store (the Chroma
  library, not in the repository). \<open>search\<close> embeds the query and returns the texts of the
  \<open>k\<close> chunks at the smallest distance, ties in insertion order (the sort is stable), fewer
  than \<open>k\<close> when fewer exist; it fails when the embedding provider does.
\<close>

definition search ::
  "(str \<Rightarrow> exn + 'v) \<Rightarrow> ('v \<Rightarrow> 'v \<Rightarrow> 'd::linorder) \<Rightarrow> 'v index \<Rightarrow> str \<Rightarrow> nat \<Rightarrow> exn + str list"
  where
  "search embed_query distance vectorstore query_text k =
     (case embed_query query_text of
        Inl ex \<Rightarrow> Inl ex
      | Inr q \<Rightarrow>
          Inr (map fst (take k (sort_key (\<lambda>(chunk, v). distance q v) vectorstore))))"

text \<open>\<^verbatim>\<open>retriever = vectorstore.as_retriever(search_kwargs={"k": 4})\<close>, and its \<^verbatim>\<open>invoke\<close>.\<close>

definition retriever ::
  "(str \<Rightarrow> exn + 'v) \<Rightarrow> ('v \<Rightarrow> 'v \<Rightarrow> 'd::linorder) \<Rightarrow> 'v index \<Rightarrow> str \<Rightarrow> exn + str list"
  where
  "retriever embed_query distance vectorstore question =
     search embed_query distance vectorstore question 4"

section \<open>The chunker\<close>

text \<open>The error of a chunk configuration whose overlap is not smaller than the maximum.\<close>

datatype config_error = ConfigError

text \<open>
  Modelled from the spec: the chunker (the text splitter of the LangChain library, not in
  the repository; the source fixes its configuration, 1000 and 100). A chunk is an offset
  into the document and the text there. A window of \<open>max_chunk_length\<close> characters moves
  by \<open>max_chunk_length - overlap_length\<close>, so that consecutive chunks share
  \<open>overlap_length\<close> characters; a document that fits in one window is one chunk. The
  second test of the condition is never true under \<open>chunker\<close>; it makes the recursion
  terminate for every configuration.
\<close>

function chunks :: "nat \<Rightarrow> nat \<Rightarrow> nat \<Rightarrow> 'a list \<Rightarrow> (nat \<times> 'a list) list" where
  "chunks offset max_chunk_length overlap_length d =
     (if length d \<le> max_chunk_length \<or> max_chunk_length \<le> overlap_length
      then [(offset, d)]
      else (offset, take max_chunk_length d) #
           chunks (offset + (max_chunk_length - overlap_length)) max_chunk_length overlap_length
             (drop (max_chunk_length - overlap_length) d))"
  by pat_completeness auto
termination
  by (relation "measure (\<lambda>(offset, m, ov, d). length d)") auto

text \<open>
  Modelled from the spec: the entry of the chunker, which refuses a configuration with
  \<open>overlap_length \<ge> max_chunk_length\<close>.
\<close>

definition chunker :: "nat \<Rightarrow> nat \<Rightarrow> 'a list \<Rightarrow> config_error + (nat \<times> 'a list) list" where
  "chunker max_chunk_length overlap_length d =
     (if max_chunk_length \<le> overlap_length then Inl ConfigError
      else Inr (chunks 0 max_chunk_length overlap_length d))"

section \<open>Concrete collaborators and states\<close>

definition demo_world :: world where
  "demo_world =
     \<lparr>store = Map.empty, retriever_log = [], bedrock_log = [], chatgpt_log = [], stdout = []\<rparr>"

text \<open>Bedrock answers with a refusal, ChatGPT answers.\<close>

definition refusing_env :: env where
  "refusing_env =
     \<lparr>retriever_invoke = (\<lambda>n q. Inr [py ''AC-2 enforces least privilege via IAM.'']),
      llm_chat_invoke = (\<lambda>n ms. Inr (py ''Sorry, I am Unable To Respond'')),
      completions_create = (\<lambda>n r. Inr [Some (py '' Use IAM. '')])\<rparr>"

text \<open>Both providers raise.\<close>

definition failing_env :: env where
  "failing_env =
     \<lparr>retriever_invoke = (\<lambda>n q. Inr []),
      llm_chat_invoke = (\<lambda>n ms. Inl (Exception (py ''throttled''))),
      completions_create = (\<lambda>n r. Inl (Exception (py ''quota exceeded'')))\<rparr>"

text \<open>Bedrock answers.\<close>

definition answering_env :: env where
  "answering_env =
     \<lparr>retriever_invoke = (\<lambda>n q. Inr [py ''AC-2 enforces least privilege via IAM.'']),
      llm_chat_invoke = (\<lambda>n ms. Inr (py ''Use IAM roles and policies.'')),
      completions_create = (\<lambda>n r. Inr [Some (py '' Use IAM. '')])\<rparr>"

text \<open>Bedrock raises, ChatGPT answers.\<close>

definition fallback_env :: env where
  "fallback_env =
     \<lparr>retriever_invoke = (\<lambda>n q. Inr [py ''AC-2 enforces least privilege via IAM.'']),
      llm_chat_invoke = (\<lambda>n ms. Inl (Exception (py ''throttled''))),
      completions_create = (\<lambda>n r. Inr [Some (py '' Use IAM. '')])\<rparr>"

text \<open>The default session with one earlier exchange.\<close>

definition history_world :: world where
  "history_world =
     \<lparr>store = [py ''sec-bot-ui'' \<mapsto> [(Human, py ''Earlier question''), (AI, py ''Earlier answer'')]],
      retriever_log = [], bedrock_log = [], chatgpt_log = [], stdout = []\<rparr>"

text \<open>Two sessions, the second with one exchange.\<close>

definition two_sessions_world :: world where
  "two_sessions_world =
     \<lparr>store = [py ''A'' \<mapsto> [], py ''B'' \<mapsto> [(Human, py ''hello''), (AI, py ''hi'')]],
      retriever_log = [], bedrock_log = [], chatgpt_log = [], stdout = []\<rparr>"

text \<open>An embedding by length, an index of two chunks, and a disk with two files and no index.\<close>

definition demo_embed :: "str \<Rightarrow> exn + nat" where
  "demo_embed t = Inr (length t)"

definition demo_distance :: "nat \<Rightarrow> nat \<Rightarrow> nat" where
  "demo_distance a b = (if a \<le> b then b - a else a - b)"

definition demo_index :: "nat index" where
  "demo_index = [(py ''a'', 1), (py ''bb'', 2)]"

definition demo_chroma :: "nat chroma" where
  "demo_chroma =
     \<lparr>split_documents = (\<lambda>content. [take 4 content, drop 4 content]),
      embed_documents = (\<lambda>texts. Inr (map length texts)),
      failed_build_leaves = None\<rparr>"

definition demo_disk :: "nat disk" where
  "demo_disk =
     \<lparr>data_txt = [(py ''nist.txt'', py ''AC-2: IAM''), (py ''cis.txt'', py ''auditd'')],
      security_index = None, embed_log = [], console = []\<rparr>"

section \<open>White space and the refusal marker\<close>

lemma strip_Nil_iff: "strip s = [] \<longleftrightarrow> list_all isspace s"
proof
  assume "strip s = []"
  then have a: "\<forall>c \<in> set (dropWhile isspace s). isspace c"
    by (simp add: strip_def dropWhile_eq_Nil_conv)
  have "dropWhile isspace s = []"
  proof (rule ccontr)
    assume n: "dropWhile isspace s \<noteq> []"
    then have "\<not> isspace (hd (dropWhile isspace s))" by (rule hd_dropWhile)
    moreover have "hd (dropWhile isspace s) \<in> set (dropWhile isspace s)" using n by simp
    ultimately show False using a by blast
  qed
  then show "list_all isspace s" by (auto simp: dropWhile_eq_Nil_conv list_all_iff)
next
  assume "list_all isspace s"
  then show "strip s = []" by (auto simp: strip_def list_all_iff dest: set_dropWhileD)
qed

lemma degenerate_iff:
  "degenerate answer \<longleftrightarrow>
     list_all isspace answer \<or> sublist (py ''unable to respond'') (lower answer)"
  by (auto simp: degenerate_def strip_Nil_iff)

section \<open>What each function leaves alone\<close>

lemma get_session_history_logs:
  "chatgpt_log (snd (get_session_history w s)) = chatgpt_log w"
  "bedrock_log (snd (get_session_history w s)) = bedrock_log w"
  "retriever_log (snd (get_session_history w s)) = retriever_log w"
  "stdout (snd (get_session_history w s)) = stdout w"
  by (simp_all add: get_session_history_def Let_def)

lemma with_message_history_invoke_chatgpt_log:
  "chatgpt_log (snd (with_message_history_invoke e w i s)) = chatgpt_log w"
  using get_session_history_logs(1)[of w s]
  by (auto simp: with_message_history_invoke_def Let_def split: prod.splits sum.splits)

lemma ask_bedrock_chatgpt_log:
  "chatgpt_log (snd (ask_bedrock e w q s)) = chatgpt_log w"
  by (simp add: ask_bedrock_def Let_def with_message_history_invoke_chatgpt_log split: sum.splits)

lemma ask_chatgpt_log:
  "chatgpt_log (snd (ask_chatgpt e w q)) = chatgpt_log w @ [chatgpt_request q]"
  by (simp add: ask_chatgpt_def Let_def split: sum.splits list.splits option.splits)

lemma fallback_chatgpt_log:
  "chatgpt_log (snd (fallback e w q ex)) = chatgpt_log w @ [chatgpt_request q]"
  using ask_chatgpt_log[of e "w\<lparr>stdout := stdout w @ [py ''[Fallback] '' @ str_of ex]\<rparr>" q]
  by (auto simp: fallback_def Let_def split: prod.splits sum.splits)

lemma fallback_answer:
  assumes "completions_create e (length (chatgpt_log w)) (chatgpt_request q) =
             Inr (Some content # rest)"
  shows "fst (fallback e w q ex) = Inr (fallback_label @ strip content)"
  using assms by (simp add: fallback_def ask_chatgpt_def Let_def)

lemma fallback_failure:
  assumes "completions_create e (length (chatgpt_log w)) (chatgpt_request q) = Inl e2"
  shows "fst (fallback e w q ex) = Inr (failed_label @ str_of e2)"
  using assms by (simp add: fallback_def ask_chatgpt_def Let_def)

section \<open>The fallback\<close>

text \<open>The two labels of an answer, as the code points of their f-strings.\<close>

lemma fallback_label_text:
  "fallback_label = [129302] @ py '' **ChatGPT Fallback:**'' @ [10, 10]"
  by (simp add: fallback_label_def nl_def)

lemma bedrock_label_text:
  "bedrock_label = [129504] @ py '' **Bedrock:**'' @ [10, 10]"
  by (simp add: bedrock_label_def nl_def)

text \<open>
  C1. Let Bedrock have answered. When the answer is empty or white space only, or
  contains "unable to respond" in any case, \<^verbatim>\<open>ask_secure_bot\<close> sends exactly one request to
  the fallback provider and, when that provider answers, returns its (stripped) answer
  after the label "ChatGPT Fallback" (the robot face, the name in bold, a blank line). For
  any other answer no request is sent to the fallback provider and the answer is returned
  after the label "Bedrock" (the brain, the name in bold, a blank line).
\<close>

theorem C1_fallback_on_degenerate_answer:
  assumes "fst (ask_bedrock e w question (Some (session_id_arg session_id))) = Inr answer"
  shows "if list_all isspace answer \<or> sublist (py ''unable to respond'') (lower answer)
         then chatgpt_log (snd (ask_secure_bot e w question session_id)) =
                chatgpt_log w @ [chatgpt_request question] \<and>
              (\<forall>content rest.
                 completions_create e (length (chatgpt_log w)) (chatgpt_request question) =
                   Inr (Some content # rest) \<longrightarrow>
                 fst (ask_secure_bot e w question session_id) =
                   Inr ([129302] @ py '' **ChatGPT Fallback:**'' @ [10, 10] @ strip content))
         else chatgpt_log (snd (ask_secure_bot e w question session_id)) = chatgpt_log w \<and>
              fst (ask_secure_bot e w question session_id) =
                Inr ([129504] @ py '' **Bedrock:**'' @ [10, 10] @ answer)"
proof -
  obtain w1 where b:
    "ask_bedrock e w question (Some (session_id_arg session_id)) = (Inr answer, w1)"
    using assms by (cases "ask_bedrock e w question (Some (session_id_arg session_id))") simp
  have l: "chatgpt_log w1 = chatgpt_log w"
    using ask_bedrock_chatgpt_log[of e w question "Some (session_id_arg session_id)"] b by simp
  show ?thesis
  proof (cases "degenerate answer")
    case True
    then have r: "ask_secure_bot e w question session_id =
        fallback e w1 question (Exception (py ''Bedrock failed, switching to ChatGPT''))"
      using b by (simp add: ask_secure_bot_def)
    show ?thesis
      using True unfolding r degenerate_iff
      by (simp add: fallback_chatgpt_log l fallback_answer fallback_label_text)
  next
    case False
    then have r: "ask_secure_bot e w question session_id = (Inr (bedrock_label @ answer), w1)"
      using b by (simp add: ask_secure_bot_def)
    show ?thesis
      using False unfolding r degenerate_iff by (simp add: l bedrock_label_text)
  qed
qed

theorem C1_fallback_on_degenerate_answer_witness:
  "fst (ask_bedrock refusing_env demo_world (py ''What is AC-2?'') (Some (session_id_arg None))) =
     Inr (py ''Sorry, I am Unable To Respond'') \<and>
   chatgpt_log (snd (ask_secure_bot refusing_env demo_world (py ''What is AC-2?'') None)) =
     [chatgpt_request (py ''What is AC-2?'')] \<and>
   fst (ask_secure_bot refusing_env demo_world (py ''What is AC-2?'') None) =
     Inr ([129302] @ py '' **ChatGPT Fallback:**'' @ [10, 10] @ py ''Use IAM.'')"
proof -
  have h: "fst (ask_bedrock refusing_env demo_world (py ''What is AC-2?'')
                 (Some (session_id_arg None))) = Inr (py ''Sorry, I am Unable To Respond'')"
    by (simp add: ask_bedrock_def with_message_history_invoke_def get_session_history_def
        refusing_env_def demo_world_def Let_def)
  have m: "sublist (py ''unable to respond'') (lower (py ''Sorry, I am Unable To Respond''))"
    by (simp add: py_def lower_def lower_cp_def sublist_code)
  have c: "completions_create refusing_env (length (chatgpt_log demo_world))
             (chatgpt_request (py ''What is AC-2?'')) = Inr [Some (py '' Use IAM. '')]"
    by (simp add: refusing_env_def)
  have s: "strip (py '' Use IAM. '') = py ''Use IAM.''"
    by (simp add: strip_def py_def isspace_def)
  show ?thesis
    using C1_fallback_on_degenerate_answer [OF h] m c s h
    by (simp add: demo_world_def)
qed

lemma with_message_history_invoke_stdout:
  "stdout (snd (with_message_history_invoke e w i s)) = stdout w"
  using get_session_history_logs(4)[of w s]
  by (auto simp: with_message_history_invoke_def Let_def split: prod.splits sum.splits)

lemma ask_bedrock_stdout:
  "stdout (snd (ask_bedrock e w q s)) = stdout w"
  by (simp add: ask_bedrock_def Let_def with_message_history_invoke_stdout split: sum.splits)

lemma ask_chatgpt_stdout:
  "stdout (snd (ask_chatgpt e w q)) = stdout w"
  by (simp add: ask_chatgpt_def Let_def split: sum.splits list.splits option.splits)

lemma fallback_stdout:
  "stdout (snd (fallback e w q ex)) = stdout w @ [py ''[Fallback] '' @ str_of ex]"
  using ask_chatgpt_stdout[of e "w\<lparr>stdout := stdout w @ [py ''[Fallback] '' @ str_of ex]\<rparr>" q]
  by (auto simp: fallback_def Let_def split: prod.splits sum.splits)

lemma failed_label_visible:
  "sublist (py ''Both models failed'') (failed_label @ m)" "strip (failed_label @ m) \<noteq> []"
proof -
  have "failed_label @ m = [10060, 32] @ py ''Both models failed'' @ (py '': '' @ m)"
    by (simp add: failed_label_def py_def)
  then show "sublist (py ''Both models failed'') (failed_label @ m)"
    by (simp only: sublist_appendI)
  have "\<not> list_all isspace (failed_label @ m)"
    by (simp add: failed_label_def isspace_def)
  then show "strip (failed_label @ m) \<noteq> []"
    by (simp only: strip_Nil_iff not_False_eq_True)
qed

section \<open>Both providers fail\<close>

text \<open>
  C2. When \<^verbatim>\<open>ask_bedrock\<close> raises and the fallback provider raises too, \<^verbatim>\<open>ask_secure_bot\<close>
  returns (it does not raise) one string: the label "Both models failed" followed by the
  description of the last error. The string is not empty and not white space only. The
  first error is printed on the console.
\<close>

theorem C2_dual_failure:
  assumes "fst (ask_bedrock e w question (Some (session_id_arg session_id))) = Inl e1"
    and "completions_create e (length (chatgpt_log w)) (chatgpt_request question) = Inl e2"
  shows "fst (ask_secure_bot e w question session_id) = Inr (failed_label @ str_of e2) \<and>
         sublist (py ''Both models failed'') (failed_label @ str_of e2) \<and>
         strip (failed_label @ str_of e2) \<noteq> [] \<and>
         stdout (snd (ask_secure_bot e w question session_id)) =
           stdout w @ [py ''[Fallback] '' @ str_of e1]"
proof -
  obtain w1 where b:
    "ask_bedrock e w question (Some (session_id_arg session_id)) = (Inl e1, w1)"
    using assms(1) by (cases "ask_bedrock e w question (Some (session_id_arg session_id))") simp
  have l: "chatgpt_log w1 = chatgpt_log w"
    using ask_bedrock_chatgpt_log[of e w question "Some (session_id_arg session_id)"] b by simp
  have o: "stdout w1 = stdout w"
    using ask_bedrock_stdout[of e w question "Some (session_id_arg session_id)"] b by simp
  have r: "ask_secure_bot e w question session_id = fallback e w1 question e1"
    using b by (simp add: ask_secure_bot_def)
  have "fst (fallback e w1 question e1) = Inr (failed_label @ str_of e2)"
    using assms(2) l by (simp add: fallback_failure)
  then show ?thesis
    unfolding r by (simp add: failed_label_visible fallback_stdout o)
qed

theorem C2_dual_failure_witness:
  "fst (ask_bedrock failing_env demo_world (py ''What is AC-2?'') (Some (session_id_arg None))) =
     Inl (Exception (py ''throttled'')) \<and>
   fst (ask_secure_bot failing_env demo_world (py ''What is AC-2?'') None) =
     Inr ([10060] @ py '' Both models failed: quota exceeded'') \<and>
   stdout (snd (ask_secure_bot failing_env demo_world (py ''What is AC-2?'') None)) =
     [py ''[Fallback] throttled'']"
proof -
  have h: "fst (ask_bedrock failing_env demo_world (py ''What is AC-2?'')
                 (Some (session_id_arg None))) = Inl (Exception (py ''throttled''))"
    by (simp add: ask_bedrock_def with_message_history_invoke_def get_session_history_def
        failing_env_def demo_world_def Let_def)
  have c: "completions_create failing_env (length (chatgpt_log demo_world))
             (chatgpt_request (py ''What is AC-2?'')) = Inl (Exception (py ''quota exceeded''))"
    by (simp add: failing_env_def)
  show ?thesis
    using C2_dual_failure [OF h c] h
    by (simp add: demo_world_def failed_label_def py_def)
qed

section \<open>The request to the fallback provider\<close>

text \<open>
  C10. Whatever the retriever returned and whatever the session holds, \<^verbatim>\<open>ask_secure_bot\<close>
  sends the fallback provider either nothing or one request, and the messages of that
  request are the system context and the question as it was asked: no retrieved chunk and
  no turn of the session history.
\<close>

theorem C10_fallback_request:
  "chatgpt_log (snd (ask_secure_bot e w question session_id)) = chatgpt_log w \<or>
   (chatgpt_log (snd (ask_secure_bot e w question session_id)) =
      chatgpt_log w @ [chatgpt_request question] \<and>
    messages (chatgpt_request question) =
      [(py ''system'', SECURITY_CONTEXT), (py ''user'', question)])"
proof -
  obtain a w1 where b:
    "ask_bedrock e w question (Some (session_id_arg session_id)) = (a, w1)"
    by (cases "ask_bedrock e w question (Some (session_id_arg session_id))")
  have l: "chatgpt_log w1 = chatgpt_log w"
    using ask_bedrock_chatgpt_log[of e w question "Some (session_id_arg session_id)"] b by simp
  have m: "messages (chatgpt_request question) =
             [(py ''system'', SECURITY_CONTEXT), (py ''user'', question)]"
    by (simp add: chatgpt_request_def)
  show ?thesis
    using b l m by (auto simp: ask_secure_bot_def fallback_chatgpt_log split: sum.splits)
qed

section \<open>The session store\<close>

lemma get_session_history_eq:
  "get_session_history w s =
     (case store w s of
        Some h \<Rightarrow> (h, w)
      | None \<Rightarrow> ([], w\<lparr>store := (store w)(s \<mapsto> [])\<rparr>))"
  by (auto simp: get_session_history_def Let_def split: option.splits)

lemma get_session_history_other:
  "k \<noteq> s \<Longrightarrow> store (snd (get_session_history w s)) k = store w k"
  by (simp add: get_session_history_eq split: option.splits)

lemma get_session_history_same:
  "store (snd (get_session_history w s)) s = Some (fst (get_session_history w s))"
  by (simp add: get_session_history_eq split: option.splits)

lemma with_message_history_invoke_other:
  "k \<noteq> s \<Longrightarrow> store (snd (with_message_history_invoke e w i s)) k = store w k"
  using get_session_history_other[of k s w]
  by (auto simp: with_message_history_invoke_def Let_def split: prod.splits sum.splits)

lemma with_message_history_invoke_bedrock_log:
  "bedrock_log (snd (with_message_history_invoke e w i s)) =
     bedrock_log w @ [fst (get_session_history w s) @ i]"
  using get_session_history_logs(2)[of w s]
  by (auto simp: with_message_history_invoke_def Let_def split: prod.splits sum.splits)

lemma with_message_history_invoke_answer:
  assumes "llm_chat_invoke e (length (bedrock_log w)) (fst (get_session_history w s) @ i) = Inr a"
  shows "fst (with_message_history_invoke e w i s) = Inr a"
    and "store (snd (with_message_history_invoke e w i s)) =
           (store w)(s \<mapsto> fst (get_session_history w s) @ i @ [(AI, a)])"
  using assms get_session_history_logs(2)[of w s]
  by (auto simp: with_message_history_invoke_def Let_def get_session_history_eq
      split: prod.splits sum.splits option.splits)

lemma with_message_history_invoke_raise:
  assumes "llm_chat_invoke e (length (bedrock_log w)) (fst (get_session_history w s) @ i) = Inl ex"
  shows "fst (with_message_history_invoke e w i s) = Inl ex"
    and "store (snd (with_message_history_invoke e w i s)) =
           (store w)(s \<mapsto> fst (get_session_history w s))"
  using assms get_session_history_logs(2)[of w s]
  by (auto simp: with_message_history_invoke_def Let_def get_session_history_eq
      split: prod.splits sum.splits option.splits)

lemma ask_bedrock_other:
  "k \<noteq> session_id_arg s \<Longrightarrow> store (snd (ask_bedrock e w q s)) k = store w k"
  by (simp add: ask_bedrock_def Let_def with_message_history_invoke_other split: sum.splits)

lemma app_ask_secure_bot_eq: "app_ask_secure_bot = ask_bedrock"
  by (intro ext) (simp add: app_ask_secure_bot_def ask_bedrock_def)

lemma ask_chatgpt_store: "store (snd (ask_chatgpt e w q)) = store w"
  by (simp add: ask_chatgpt_def Let_def split: sum.splits list.splits option.splits)

lemma fallback_store: "store (snd (fallback e w q ex)) = store w"
  using ask_chatgpt_store[of e "w\<lparr>stdout := stdout w @ [py ''[Fallback] '' @ str_of ex]\<rparr>" q]
  by (auto simp: fallback_def Let_def split: prod.splits sum.splits)

lemma ask_secure_bot_store:
  "store (snd (ask_secure_bot e w q s)) =
     store (snd (ask_bedrock e w q (Some (session_id_arg s))))"
  by (auto simp: ask_secure_bot_def fallback_store split: prod.splits sum.splits)

lemma session_id_arg_Some [simp]: "session_id_arg (Some s) = s"
  by (simp add: session_id_arg_def)

lemma ask_secure_bot_other:
  "k \<noteq> session_id_arg s \<Longrightarrow> store (snd (ask_secure_bot e w q s)) k = store w k"
  by (simp add: ask_secure_bot_store ask_bedrock_other)

lemma get_session_history_fst: "fst (get_session_history w s) = (case store w s of None \<Rightarrow> [] | Some h \<Rightarrow> h)"
  by (simp add: get_session_history_eq split: option.splits)

text \<open>
  C6. \<^verbatim>\<open>get_session_history\<close> returns the history kept under the session id, or creates
  an empty one and records it under that key and no other. For two different session ids,
  what is read from the second is the same before and after the first is fetched, after
  turns are added to the first by \<^verbatim>\<open>with_message_history.invoke\<close>, and after a question is
  asked in the first (in either file).
\<close>

theorem C6_session_isolation:
  assumes "a \<noteq> b"
  shows "get_session_history w a =
           (case store w a of
              Some h \<Rightarrow> (h, w)
            | None \<Rightarrow> ([], w\<lparr>store := (store w)(a \<mapsto> [])\<rparr>)) \<and>
         fst (get_session_history (snd (get_session_history w a)) b) =
           fst (get_session_history w b) \<and>
         fst (get_session_history (snd (with_message_history_invoke e w input a)) b) =
           fst (get_session_history w b) \<and>
         fst (get_session_history (snd (ask_secure_bot e w question (Some a))) b) =
           fst (get_session_history w b) \<and>
         fst (get_session_history (snd (app_ask_secure_bot e w question (Some a))) b) =
           fst (get_session_history w b)"
proof -
  have "store (snd (get_session_history w a)) b = store w b"
    using assms by (simp add: get_session_history_other)
  moreover have "store (snd (with_message_history_invoke e w input a)) b = store w b"
    using assms by (simp add: with_message_history_invoke_other)
  moreover have "store (snd (ask_secure_bot e w question (Some a))) b = store w b"
    using assms by (simp add: ask_secure_bot_other)
  moreover have "store (snd (app_ask_secure_bot e w question (Some a))) b = store w b"
    using assms by (simp add: app_ask_secure_bot_eq ask_bedrock_other)
  ultimately have "fst (get_session_history (snd (get_session_history w a)) b) =
           fst (get_session_history w b) \<and>
         fst (get_session_history (snd (with_message_history_invoke e w input a)) b) =
           fst (get_session_history w b) \<and>
         fst (get_session_history (snd (ask_secure_bot e w question (Some a))) b) =
           fst (get_session_history w b) \<and>
         fst (get_session_history (snd (app_ask_secure_bot e w question (Some a))) b) =
           fst (get_session_history w b)"
    by (simp add: get_session_history_fst)
  then show ?thesis
    using get_session_history_eq[of w a] by blast
qed

theorem C6_session_isolation_witness:
  "py ''A'' \<noteq> py ''B'' \<and>
   store (snd (ask_secure_bot answering_env two_sessions_world (py ''What is AC-2?'') (Some (py ''A''))))
     (py ''A'') =
     Some [(Human, prompt [py ''AC-2 enforces least privilege via IAM.''] (py ''What is AC-2?'')),
           (AI, py ''Use IAM roles and policies.'')] \<and>
   fst (get_session_history
         (snd (ask_secure_bot answering_env two_sessions_world (py ''What is AC-2?'') (Some (py ''A''))))
         (py ''B'')) =
     [(Human, py ''hello''), (AI, py ''hi'')]"
proof -
  have n: "py ''A'' \<noteq> py ''B''"
    by (simp add: py_def)
  have r: "fst (get_session_history two_sessions_world (py ''B'')) =
             [(Human, py ''hello''), (AI, py ''hi'')]"
    using n by (simp add: get_session_history_fst two_sessions_world_def)
  have s: "store (snd (ask_secure_bot answering_env two_sessions_world (py ''What is AC-2?'')
                        (Some (py ''A'')))) (py ''A'') =
     Some [(Human, prompt [py ''AC-2 enforces least privilege via IAM.''] (py ''What is AC-2?'')),
           (AI, py ''Use IAM roles and policies.'')]"
    using n by (simp add: ask_secure_bot_store ask_bedrock_def with_message_history_invoke_def
        get_session_history_def answering_env_def two_sessions_world_def Let_def)
  show ?thesis
    using C6_session_isolation [OF n, of two_sessions_world answering_env "[]" "py ''What is AC-2?''"]
      n r s by simp
qed

section \<open>What is added to the session\<close>

lemma ask_bedrock_answer:
  assumes "retriever_invoke e (length (retriever_log w)) q = Inr docs"
    and "llm_chat_invoke e (length (bedrock_log w))
           (fst (get_session_history w (session_id_arg s)) @ [(Human, prompt docs q)]) = Inr a"
  shows "fst (ask_bedrock e w q s) = Inr a"
    and "store (snd (ask_bedrock e w q s)) =
           (store w)(session_id_arg s \<mapsto>
             fst (get_session_history w (session_id_arg s)) @
             [(Human, prompt docs q), (AI, a)])"
proof -
  let ?w1 = "w\<lparr>retriever_log := retriever_log w @ [q]\<rparr>"
  have g: "fst (get_session_history ?w1 (session_id_arg s)) =
             fst (get_session_history w (session_id_arg s))"
    by (simp add: get_session_history_fst)
  have l: "llm_chat_invoke e (length (bedrock_log ?w1))
             (fst (get_session_history ?w1 (session_id_arg s)) @ [(Human, prompt docs q)]) = Inr a"
    using assms(2) g by simp
  have b: "ask_bedrock e w q s =
             with_message_history_invoke e ?w1 [(Human, prompt docs q)] (session_id_arg s)"
    using assms(1) by (simp add: ask_bedrock_def Let_def)
  show "fst (ask_bedrock e w q s) = Inr a"
    unfolding b using with_message_history_invoke_answer(1)[OF l] .
  show "store (snd (ask_bedrock e w q s)) =
           (store w)(session_id_arg s \<mapsto>
             fst (get_session_history w (session_id_arg s)) @
             [(Human, prompt docs q), (AI, a)])"
    unfolding b using with_message_history_invoke_answer(2)[OF l] g by simp
qed

lemma ask_bedrock_bedrock_log:
  assumes "retriever_invoke e (length (retriever_log w)) q = Inr docs"
  shows "bedrock_log (snd (ask_bedrock e w q s)) =
           bedrock_log w @
           [fst (get_session_history w (session_id_arg s)) @ [(Human, prompt docs q)]]"
  using assms
  by (simp add: ask_bedrock_def Let_def with_message_history_invoke_bedrock_log
      get_session_history_fst)

text \<open>
  C7, as the code has it. When Bedrock answers and the answer is kept, the message that
  carries the composed prompt and the answer are added to the session of the request,
  and the answer is returned after the label "Bedrock". Whatever happens next, the
  session store is as the call of Bedrock left it: the fallback adds nothing, and its
  answer is returned after the label "ChatGPT Fallback".
\<close>

theorem C7_session_append:
  "(\<forall>docs a.
      retriever_invoke e (length (retriever_log w)) question = Inr docs \<and>
      llm_chat_invoke e (length (bedrock_log w))
        (fst (get_session_history w (session_id_arg session_id)) @
         [(Human, prompt docs question)]) = Inr a \<and>
      \<not> degenerate a \<longrightarrow>
      fst (ask_secure_bot e w question session_id) = Inr ([129504] @ py '' **Bedrock:**'' @ [10, 10] @ a) \<and>
      store (snd (ask_secure_bot e w question session_id)) =
        (store w)(session_id_arg session_id \<mapsto>
          fst (get_session_history w (session_id_arg session_id)) @
          [(Human, prompt docs question), (AI, a)])) \<and>
   store (snd (ask_secure_bot e w question session_id)) =
     store (snd (ask_bedrock e w question (Some (session_id_arg session_id)))) \<and>
   (\<forall>content rest.
      (\<forall>a. fst (ask_bedrock e w question (Some (session_id_arg session_id))) = Inr a \<longrightarrow>
           degenerate a) \<and>
      completions_create e (length (chatgpt_log w)) (chatgpt_request question) =
        Inr (Some content # rest) \<longrightarrow>
      fst (ask_secure_bot e w question session_id) = Inr ([129302] @ py '' **ChatGPT Fallback:**'' @ [10, 10] @ strip content))"
proof (intro conjI allI impI)
  fix docs a
  assume h: "retriever_invoke e (length (retriever_log w)) question = Inr docs \<and>
      llm_chat_invoke e (length (bedrock_log w))
        (fst (get_session_history w (session_id_arg session_id)) @
         [(Human, prompt docs question)]) = Inr a \<and>
      \<not> degenerate a"
  have f: "fst (ask_bedrock e w question (Some (session_id_arg session_id))) = Inr a"
    using ask_bedrock_answer(1)[of e w question docs "Some (session_id_arg session_id)" a] h
    by simp
  have s: "store (snd (ask_bedrock e w question (Some (session_id_arg session_id)))) =
             (store w)(session_id_arg session_id \<mapsto>
               fst (get_session_history w (session_id_arg session_id)) @
               [(Human, prompt docs question), (AI, a)])"
    using ask_bedrock_answer(2)[of e w question docs "Some (session_id_arg session_id)" a] h
    by simp
  show "fst (ask_secure_bot e w question session_id) = Inr ([129504] @ py '' **Bedrock:**'' @ [10, 10] @ a)"
    using f h
    by (auto simp: ask_secure_bot_def bedrock_label_text split: prod.splits sum.splits)
  show "store (snd (ask_secure_bot e w question session_id)) =
        (store w)(session_id_arg session_id \<mapsto>
          fst (get_session_history w (session_id_arg session_id)) @
          [(Human, prompt docs question), (AI, a)])"
    using s by (simp add: ask_secure_bot_store)
next
  show "store (snd (ask_secure_bot e w question session_id)) =
     store (snd (ask_bedrock e w question (Some (session_id_arg session_id))))"
    by (rule ask_secure_bot_store)
next
  fix content rest
  assume h: "(\<forall>a. fst (ask_bedrock e w question (Some (session_id_arg session_id))) = Inr a \<longrightarrow>
           degenerate a) \<and>
      completions_create e (length (chatgpt_log w)) (chatgpt_request question) =
        Inr (Some content # rest)"
  obtain r w1 where b:
    "ask_bedrock e w question (Some (session_id_arg session_id)) = (r, w1)"
    by (cases "ask_bedrock e w question (Some (session_id_arg session_id))")
  have l: "chatgpt_log w1 = chatgpt_log w"
    using ask_bedrock_chatgpt_log[of e w question "Some (session_id_arg session_id)"] b by simp
  have c: "completions_create e (length (chatgpt_log w1)) (chatgpt_request question) =
        Inr (Some content # rest)"
    using h l by simp
  show "fst (ask_secure_bot e w question session_id) = Inr ([129302] @ py '' **ChatGPT Fallback:**'' @ [10, 10] @ strip content)"
  proof (cases r)
    case (Inl ex)
    then show ?thesis
      using b fallback_answer[OF c] by (simp add: ask_secure_bot_def fallback_label_text)
  next
    case (Inr a)
    then have "degenerate a" using h b by simp
    then show ?thesis
      using b Inr fallback_answer[OF c]
      by (simp add: ask_secure_bot_def fallback_label_text)
  qed
qed

theorem C7_session_append_witness:
  "fst (ask_secure_bot answering_env demo_world (py ''What is AC-2?'') (Some (py ''s1''))) =
     Inr ([129504] @ py '' **Bedrock:**'' @ [10, 10] @ py ''Use IAM roles and policies.'') \<and>
   store (snd (ask_secure_bot answering_env demo_world (py ''What is AC-2?'') (Some (py ''s1'')))) =
     [py ''s1'' \<mapsto>
        [(Human, prompt [py ''AC-2 enforces least privilege via IAM.''] (py ''What is AC-2?'')),
         (AI, py ''Use IAM roles and policies.'')]] \<and>
   fst (ask_secure_bot refusing_env demo_world (py ''What is AC-2?'') (Some (py ''s1''))) =
     Inr ([129302] @ py '' **ChatGPT Fallback:**'' @ [10, 10] @ py ''Use IAM.'')"
proof -
  have d: "\<not> degenerate (py ''Use IAM roles and policies.'')"
    by (simp add: degenerate_def py_def lower_def lower_cp_def strip_def isspace_def sublist_code)
  have d': "degenerate (py ''Sorry, I am Unable To Respond'')"
    by (simp add: degenerate_def py_def lower_def lower_cp_def sublist_code)
  have r: "retriever_invoke answering_env (length (retriever_log demo_world)) (py ''What is AC-2?'') =
             Inr [py ''AC-2 enforces least privilege via IAM.'']"
    by (simp add: answering_env_def)
  have l: "llm_chat_invoke answering_env (length (bedrock_log demo_world))
        (fst (get_session_history demo_world (session_id_arg (Some (py ''s1'')))) @
         [(Human, prompt [py ''AC-2 enforces least privilege via IAM.''] (py ''What is AC-2?''))]) =
           Inr (py ''Use IAM roles and policies.'')"
    by (simp add: answering_env_def)
  have g: "fst (get_session_history demo_world (py ''s1'')) = []"
    by (simp add: get_session_history_fst demo_world_def)
  have b: "fst (ask_bedrock refusing_env demo_world (py ''What is AC-2?'')
                 (Some (session_id_arg (Some (py ''s1''))))) = Inr (py ''Sorry, I am Unable To Respond'')"
    by (simp add: ask_bedrock_def with_message_history_invoke_def get_session_history_def
        refusing_env_def demo_world_def Let_def)
  have c: "completions_create refusing_env (length (chatgpt_log demo_world))
             (chatgpt_request (py ''What is AC-2?'')) = Inr [Some (py '' Use IAM. '')]"
    by (simp add: refusing_env_def)
  have s: "strip (py '' Use IAM. '') = py ''Use IAM.''"
    by (simp add: strip_def py_def isspace_def)
  have e: "store demo_world = Map.empty"
    by (simp add: demo_world_def)
  show ?thesis
    using C7_session_append [of answering_env demo_world "py ''What is AC-2?''" "Some (py ''s1'')"]
      C7_session_append [of refusing_env demo_world "py ''What is AC-2?''" "Some (py ''s1'')"]
      d d' r l g b c s e
    by simp
qed

text \<open>
  C7 as stated fails: Bedrock raises, the fallback answers, the answer is returned under
  the label "ChatGPT Fallback", and the session of the request holds no turn.
\<close>

theorem C7_fallback_answer_not_appended:
  "fst (ask_secure_bot fallback_env demo_world (py ''What is AC-2?'') (Some (py ''s1''))) =
     Inr ([129302] @ py '' **ChatGPT Fallback:**'' @ [10, 10] @ py ''Use IAM.'') \<and>
   store (snd (ask_secure_bot fallback_env demo_world (py ''What is AC-2?'') (Some (py ''s1''))))
     (py ''s1'') = Some []"
  by (simp add: ask_secure_bot_def ask_bedrock_def with_message_history_invoke_def
      get_session_history_def fallback_def ask_chatgpt_def fallback_env_def demo_world_def
      Let_def strip_def py_def isspace_def fallback_label_def nl_def)

section \<open>The default session of the page\<close>

lemma ask_chatgpt_bedrock_log: "bedrock_log (snd (ask_chatgpt e w q)) = bedrock_log w"
  by (simp add: ask_chatgpt_def Let_def split: sum.splits list.splits option.splits)

lemma fallback_bedrock_log: "bedrock_log (snd (fallback e w q ex)) = bedrock_log w"
  using ask_chatgpt_bedrock_log[of e "w\<lparr>stdout := stdout w @ [py ''[Fallback] '' @ str_of ex]\<rparr>" q]
  by (auto simp: fallback_def Let_def split: prod.splits sum.splits)

lemma ask_secure_bot_bedrock_log:
  "bedrock_log (snd (ask_secure_bot e w q s)) =
     bedrock_log (snd (ask_bedrock e w q (Some (session_id_arg s))))"
  by (auto simp: ask_secure_bot_def fallback_bedrock_log split: prod.splits sum.splits)

lemma session_id_arg_None: "session_id_arg None = py ''sec-bot-ui''"
  by (simp add: session_id_arg_def)

text \<open>
  What one click does, whatever the store held before: when the retriever has answered,
  the request to Bedrock is the prompt alone, and when Bedrock answers, the store holds
  the session \<open>sec-bot-ui\<close> with that one exchange and nothing else.
\<close>

lemma ui_click:
  assumes "user_question \<noteq> []"
    and "retriever_invoke e (length (retriever_log w)) user_question = Inr docs"
  shows "bedrock_log (snd (ui e w user_question True)) =
           bedrock_log w @ [[(Human, prompt docs user_question)]]"
    and "bedrock_log (snd (app_ui e w user_question True)) =
           bedrock_log w @ [[(Human, prompt docs user_question)]]"
    and "llm_chat_invoke e (length (bedrock_log w)) [(Human, prompt docs user_question)] = Inr a \<Longrightarrow>
         store (snd (ui e w user_question True)) =
           [py ''sec-bot-ui'' \<mapsto> [(Human, prompt docs user_question), (AI, a)]]"
    and "llm_chat_invoke e (length (bedrock_log w)) [(Human, prompt docs user_question)] = Inr a \<Longrightarrow>
         store (snd (app_ui e w user_question True)) =
           [py ''sec-bot-ui'' \<mapsto> [(Human, prompt docs user_question), (AI, a)]]"
proof -
  let ?w0 = "w\<lparr>store := Map.empty\<rparr>"
  have u: "snd (ui e w user_question True) = snd (ask_secure_bot e ?w0 user_question None)"
    using assms(1) by (simp add: ui_def Let_def split: prod.splits sum.splits)
  have v: "snd (app_ui e w user_question True) = snd (ask_bedrock e ?w0 user_question None)"
    using assms(1)
    by (simp add: app_ui_def app_ask_secure_bot_eq Let_def split: prod.splits sum.splits)
  have r: "retriever_invoke e (length (retriever_log ?w0)) user_question = Inr docs"
    using assms(2) by simp
  have g: "fst (get_session_history ?w0 (py ''sec-bot-ui'')) = []"
    by (simp add: get_session_history_fst)
  show "bedrock_log (snd (ui e w user_question True)) =
           bedrock_log w @ [[(Human, prompt docs user_question)]]"
    using ask_bedrock_bedrock_log[OF r, of "Some (session_id_arg None)"] g
    by (simp add: u ask_secure_bot_bedrock_log session_id_arg_None)
  show "bedrock_log (snd (app_ui e w user_question True)) =
           bedrock_log w @ [[(Human, prompt docs user_question)]]"
    using ask_bedrock_bedrock_log[OF r, of None] g
    by (simp add: v session_id_arg_None)
  assume l: "llm_chat_invoke e (length (bedrock_log w)) [(Human, prompt docs user_question)] = Inr a"
  have l1: "llm_chat_invoke e (length (bedrock_log ?w0))
              (fst (get_session_history ?w0 (session_id_arg None)) @
               [(Human, prompt docs user_question)]) = Inr a"
    using l g by (simp add: session_id_arg_None)
  have l2: "llm_chat_invoke e (length (bedrock_log ?w0))
              (fst (get_session_history ?w0 (session_id_arg (Some (session_id_arg None)))) @
               [(Human, prompt docs user_question)]) = Inr a"
    using l g by (simp add: session_id_arg_None)
  show "store (snd (ui e w user_question True)) =
           [py ''sec-bot-ui'' \<mapsto> [(Human, prompt docs user_question), (AI, a)]]"
    using ask_bedrock_answer(2)[OF r l2] g
    by (simp add: u ask_secure_bot_store session_id_arg_None)
  show "store (snd (app_ui e w user_question True)) =
           [py ''sec-bot-ui'' \<mapsto> [(Human, prompt docs user_question), (AI, a)]]"
    using ask_bedrock_answer(2)[OF r l1] g
    by (simp add: v session_id_arg_None)
qed

text \<open>
  C9. The page calls \<^verbatim>\<open>ask_secure_bot\<close> with the question only, so the session is the
  default \<open>sec-bot-ui\<close>: after a first click the store holds the exchange under that key.
  But the second click runs the script again, and with it \<^verbatim>\<open>store = {}\<close>: the request of
  the second question to Bedrock is its prompt alone, without the first exchange, in both
  files. The questions of the page do not share a history.
\<close>

theorem C9_history_lost_between_clicks:
  "store (snd (ui answering_env demo_world (py ''What is AC-2?'') True)) =
     [py ''sec-bot-ui'' \<mapsto>
        [(Human, prompt [py ''AC-2 enforces least privilege via IAM.''] (py ''What is AC-2?'')),
         (AI, py ''Use IAM roles and policies.'')]] \<and>
   bedrock_log (snd (ui answering_env
                      (snd (ui answering_env demo_world (py ''What is AC-2?'') True))
                      (py ''And CM-2?'') True)) =
     [[(Human, prompt [py ''AC-2 enforces least privilege via IAM.''] (py ''What is AC-2?''))],
      [(Human, prompt [py ''AC-2 enforces least privilege via IAM.''] (py ''And CM-2?''))]] \<and>
   bedrock_log (snd (app_ui answering_env
                      (snd (app_ui answering_env demo_world (py ''What is AC-2?'') True))
                      (py ''And CM-2?'') True)) =
     [[(Human, prompt [py ''AC-2 enforces least privilege via IAM.''] (py ''What is AC-2?''))],
      [(Human, prompt [py ''AC-2 enforces least privilege via IAM.''] (py ''And CM-2?''))]]"
proof -
  let ?w1 = "snd (ui answering_env demo_world (py ''What is AC-2?'') True)"
  let ?v1 = "snd (app_ui answering_env demo_world (py ''What is AC-2?'') True)"
  have n: "py ''What is AC-2?'' \<noteq> []" "py ''And CM-2?'' \<noteq> []"
    by (simp_all add: py_def)
  have r: "\<And>i q. retriever_invoke answering_env i q =
             Inr [py ''AC-2 enforces least privilege via IAM.'']"
    by (simp add: answering_env_def)
  have l: "\<And>i ms. llm_chat_invoke answering_env i ms = Inr (py ''Use IAM roles and policies.'')"
    by (simp add: answering_env_def)
  have b: "bedrock_log demo_world = []"
    by (simp add: demo_world_def)
  have 1: "store ?w1 =
     [py ''sec-bot-ui'' \<mapsto>
        [(Human, prompt [py ''AC-2 enforces least privilege via IAM.''] (py ''What is AC-2?'')),
         (AI, py ''Use IAM roles and policies.'')]]"
    using ui_click(3)[OF n(1) r l] .
  have 2: "bedrock_log ?w1 =
     [[(Human, prompt [py ''AC-2 enforces least privilege via IAM.''] (py ''What is AC-2?''))]]"
    using ui_click(1)[OF n(1) r, of demo_world] b by simp
  have 3: "bedrock_log ?v1 =
     [[(Human, prompt [py ''AC-2 enforces least privilege via IAM.''] (py ''What is AC-2?''))]]"
    using ui_click(2)[OF n(1) r, of demo_world] b by simp
  have 4: "bedrock_log (snd (ui answering_env ?w1 (py ''And CM-2?'') True)) =
     bedrock_log ?w1 @
     [[(Human, prompt [py ''AC-2 enforces least privilege via IAM.''] (py ''And CM-2?''))]]"
    using ui_click(1)[OF n(2) r] .
  have 5: "bedrock_log (snd (app_ui answering_env ?v1 (py ''And CM-2?'') True)) =
     bedrock_log ?v1 @
     [[(Human, prompt [py ''AC-2 enforces least privilege via IAM.''] (py ''And CM-2?''))]]"
    using ui_click(2)[OF n(2) r] .
  show ?thesis
    using 1 2 3 4 5 by simp
qed

section \<open>The order of the prompt\<close>

lemma join_member:
  "c \<in> set xs \<Longrightarrow> \<exists>pre post. join sep xs = pre @ c @ post"
proof (induction sep xs rule: join.induct)
  case (1 sep)
  then show ?case by simp
next
  case (2 sep x)
  then have "join sep [x] = [] @ c @ []" by simp
  then show ?case by blast
next
  case (3 sep x y ys)
  show ?case
  proof (cases "c = x")
    case True
    then have "join sep (x # y # ys) = [] @ c @ (sep @ join sep (y # ys))" by simp
    then show ?thesis by blast
  next
    case False
    then have "c \<in> set (y # ys)" using 3(2) by simp
    then obtain pre post where "join sep (y # ys) = pre @ c @ post"
      using 3(1) by blast
    then have "join sep (x # y # ys) = (x @ sep @ pre) @ c @ post" by simp
    then show ?thesis by blast
  qed
qed

lemma ctx_join: "ctx ctx_docs = join (nl @ nl) ctx_docs"
  by (simp add: ctx_def)

text \<open>
  C3, as the code has it. The prompt is the system context, the line "Context:", the
  retrieved texts joined by a blank line (nothing when there are none), and the question
  after "Question: ": the system context and each retrieved text stand before the
  question. The turns of the session history are not in the prompt: the request to
  Bedrock is the history, each turn with its role, followed by the message that carries
  the prompt. The same holds in \<^verbatim>\<open>app.py\<close>.
\<close>

theorem C3_prompt_order:
  "prompt ctx_docs question =
     SECURITY_CONTEXT @ nl @ nl @ py ''Context:'' @ nl @ join (nl @ nl) ctx_docs @ nl @ nl @
     py ''Question: '' @ question @ nl \<and>
   join (nl @ nl) [] = [] \<and>
   (\<forall>c \<in> set ctx_docs.
      \<exists>pre post. prompt ctx_docs question =
        SECURITY_CONTEXT @ pre @ c @ post @ py ''Question: '' @ question @ nl) \<and>
   (retriever_invoke e (length (retriever_log w)) question = Inr ctx_docs \<longrightarrow>
      bedrock_log (snd (ask_bedrock e w question session_id)) =
        bedrock_log w @
        [fst (get_session_history w (session_id_arg session_id)) @
         [(Human, prompt ctx_docs question)]] \<and>
      bedrock_log (snd (app_ask_secure_bot e w question session_id)) =
        bedrock_log w @
        [fst (get_session_history w (session_id_arg session_id)) @
         [(Human, prompt ctx_docs question)]])"
proof (intro conjI ballI impI)
  show p: "prompt ctx_docs question =
     SECURITY_CONTEXT @ nl @ nl @ py ''Context:'' @ nl @ join (nl @ nl) ctx_docs @ nl @ nl @
     py ''Question: '' @ question @ nl"
    by (simp add: prompt_def ctx_join)
  show "join (nl @ nl) [] = []" by simp
  fix c assume "c \<in> set ctx_docs"
  then obtain pre post where "join (nl @ nl) ctx_docs = pre @ c @ post"
    using join_member by blast
  then have "prompt ctx_docs question =
        SECURITY_CONTEXT @ (nl @ nl @ py ''Context:'' @ nl @ pre) @ c @ (post @ nl @ nl) @
        py ''Question: '' @ question @ nl"
    using p by simp
  then show "\<exists>pre post. prompt ctx_docs question =
        SECURITY_CONTEXT @ pre @ c @ post @ py ''Question: '' @ question @ nl"
    by blast
next
  assume r: "retriever_invoke e (length (retriever_log w)) question = Inr ctx_docs"
  show "bedrock_log (snd (ask_bedrock e w question session_id)) =
        bedrock_log w @
        [fst (get_session_history w (session_id_arg session_id)) @
         [(Human, prompt ctx_docs question)]]"
    using r by (rule ask_bedrock_bedrock_log)
  then show "bedrock_log (snd (app_ask_secure_bot e w question session_id)) =
        bedrock_log w @
        [fst (get_session_history w (session_id_arg session_id)) @
         [(Human, prompt ctx_docs question)]]"
    by (simp add: app_ask_secure_bot_eq)
qed

theorem C3_prompt_order_witness:
  "py ''AC-2 enforces least privilege via IAM.'' \<in> set [py ''AC-2 enforces least privilege via IAM.''] \<and>
   prompt [py ''AC-2 enforces least privilege via IAM.''] (py ''What is AC-2?'') =
     SECURITY_CONTEXT @ nl @ nl @ py ''Context:'' @ nl @
     py ''AC-2 enforces least privilege via IAM.'' @ nl @ nl @
     py ''Question: What is AC-2?'' @ nl \<and>
   bedrock_log (snd (ask_bedrock answering_env history_world (py ''What is AC-2?'') None)) =
     [[(Human, py ''Earlier question''), (AI, py ''Earlier answer''),
       (Human, prompt [py ''AC-2 enforces least privilege via IAM.''] (py ''What is AC-2?''))]]"
proof -
  have r: "retriever_invoke answering_env (length (retriever_log history_world))
             (py ''What is AC-2?'') = Inr [py ''AC-2 enforces least privilege via IAM.'']"
    by (simp add: answering_env_def)
  have g: "fst (get_session_history history_world (session_id_arg None)) =
             [(Human, py ''Earlier question''), (AI, py ''Earlier answer'')]"
    by (simp add: get_session_history_fst history_world_def session_id_arg_None)
  have b: "bedrock_log history_world = []"
    by (simp add: history_world_def)
  show ?thesis
    using C3_prompt_order [of "[py ''AC-2 enforces least privilege via IAM.'']"
        "py ''What is AC-2?''" answering_env history_world None] r g b
    by (simp add: py_def)
qed

text \<open>
  C3 as stated fails: with one earlier exchange in the session, neither turn occurs in the
  prompt; both are sent as messages of their own before it.
\<close>

theorem C3_history_not_in_prompt:
  "bedrock_log (snd (ask_bedrock answering_env history_world (py ''What is AC-2?'') None)) =
     [[(Human, py ''Earlier question''), (AI, py ''Earlier answer''),
       (Human, prompt [py ''AC-2 enforces least privilege via IAM.''] (py ''What is AC-2?''))]] \<and>
   \<not> sublist (py ''Earlier question'')
       (prompt [py ''AC-2 enforces least privilege via IAM.''] (py ''What is AC-2?'')) \<and>
   \<not> sublist (py ''Earlier answer'')
       (prompt [py ''AC-2 enforces least privilege via IAM.''] (py ''What is AC-2?''))"
proof -
  have 1: "bedrock_log (snd (ask_bedrock answering_env history_world (py ''What is AC-2?'') None)) =
     [[(Human, py ''Earlier question''), (AI, py ''Earlier answer''),
       (Human, prompt [py ''AC-2 enforces least privilege via IAM.''] (py ''What is AC-2?''))]]"
    by (simp add: ask_bedrock_def with_message_history_invoke_def get_session_history_def
        answering_env_def history_world_def Let_def session_id_arg_def)
  have 2: "\<not> sublist (py ''Earlier question'')
       (prompt [py ''AC-2 enforces least privilege via IAM.''] (py ''What is AC-2?''))"
    by (simp add: prompt_def ctx_def SECURITY_CONTEXT_def nl_def py_def sublist_code)
  have 3: "\<not> sublist (py ''Earlier answer'')
       (prompt [py ''AC-2 enforces least privilege via IAM.''] (py ''What is AC-2?''))"
    by (simp add: prompt_def ctx_def SECURITY_CONTEXT_def nl_def py_def sublist_code)
  show ?thesis using 1 2 3 by simp
qed

section \<open>Retrieval\<close>

text \<open>
  C8. When the embedding provider answers, the retriever returns the texts of the first
  four chunks of the index in the order of their distance to the question (the lookup of
  the index with \<open>k = 4\<close>): as many as the index has when it has fewer than four, all of
  them then, and none, without an error, when the index is empty.
\<close>

theorem C8_retriever:
  assumes "embed_query question = Inr q"
  shows "retriever embed_query distance vectorstore question =
           search embed_query distance vectorstore question 4 \<and>
         (\<exists>docs.
            retriever embed_query distance vectorstore question = Inr docs \<and>
            docs = map fst (take 4 (sort_key (\<lambda>(chunk, v). distance q v) vectorstore)) \<and>
            length docs = min 4 (length vectorstore) \<and>
            (vectorstore = [] \<longrightarrow> docs = []) \<and>
            (length vectorstore < 4 \<longrightarrow> mset docs = mset (map fst vectorstore)))"
proof -
  let ?docs = "map fst (take 4 (sort_key (\<lambda>(chunk, v). distance q v) vectorstore))"
  have r: "retriever embed_query distance vectorstore question = Inr ?docs"
    using assms by (simp add: retriever_def search_def)
  have l: "length ?docs = min 4 (length vectorstore)"
    by (simp add: min.commute)
  have e: "vectorstore = [] \<longrightarrow> ?docs = []"
    by simp
  have m: "length vectorstore < 4 \<longrightarrow> mset ?docs = mset (map fst vectorstore)"
  proof
    assume "length vectorstore < 4"
    then have "take 4 (sort_key (\<lambda>(chunk, v). distance q v) vectorstore) =
                 sort_key (\<lambda>(chunk, v). distance q v) vectorstore"
      by simp
    then show "mset ?docs = mset (map fst vectorstore)"
      by (simp only: mset_map mset_sort)
  qed
  show ?thesis
    using r l e m by (simp add: retriever_def)
qed

theorem C8_retriever_witness:
  "demo_embed (py ''xy'') = Inr 2 \<and>
   retriever demo_embed demo_distance demo_index (py ''xy'') = Inr [py ''bb'', py ''a''] \<and>
   retriever demo_embed demo_distance [] (py ''xy'') = Inr []"
proof -
  have h: "demo_embed (py ''xy'') = Inr 2"
    by (simp add: demo_embed_def py_def)
  have s: "sort_key (\<lambda>(chunk, v). demo_distance 2 v) demo_index = [(py ''bb'', 2), (py ''a'', 1)]"
    by (simp add: demo_index_def demo_distance_def)
  show ?thesis
    using C8_retriever [of demo_embed "py ''xy''" 2 demo_distance demo_index, OF h]
      C8_retriever [of demo_embed "py ''xy''" 2 demo_distance "[]", OF h] h s
    by auto
qed

section \<open>Building or loading the index\<close>

text \<open>
  C5. When something is at the path of the index, \<^verbatim>\<open>build_or_load_index\<close> returns it:
  nothing is embedded and the disk keeps the same index. So a second call, after a call
  that left an index at the path, returns that index and leaves it on the disk as it is,
  with nothing embedded again. Only when nothing is at the path are the files split and
  their chunks embedded, and, when the embedding succeeds, stored at the path; that call
  then raises at \<^verbatim>\<open>persist\<close>, the index being written already.
\<close>

theorem C5_build_or_load_idempotent:
  "(\<forall>persisted. security_index d = Some persisted \<longrightarrow>
      fst (build_or_load_index c d) = Inr persisted \<and>
      security_index (snd (build_or_load_index c d)) = Some persisted \<and>
      embed_log (snd (build_or_load_index c d)) = embed_log d \<and>
      data_txt (snd (build_or_load_index c d)) = data_txt d) \<and>
   (\<forall>kept. security_index (snd (build_or_load_index c d)) = Some kept \<longrightarrow>
      fst (build_or_load_index c (snd (build_or_load_index c d))) = Inr kept \<and>
      security_index (snd (build_or_load_index c (snd (build_or_load_index c d)))) =
        Some kept \<and>
      embed_log (snd (build_or_load_index c (snd (build_or_load_index c d)))) =
        embed_log (snd (build_or_load_index c d))) \<and>
   (security_index d = None \<longrightarrow>
      embed_log (snd (build_or_load_index c d)) =
        embed_log d @ [concat (map (\<lambda>(file, content). split_documents c content) (data_txt d))] \<and>
      (\<forall>vectors.
         embed_documents c
           (concat (map (\<lambda>(file, content). split_documents c content) (data_txt d))) =
           Inr vectors \<longrightarrow>
         security_index (snd (build_or_load_index c d)) =
           Some (zip (concat (map (\<lambda>(file, content). split_documents c content) (data_txt d)))
                   vectors) \<and>
         fst (build_or_load_index c d) = Inl persist_error))"
proof -
  have load: "\<And>d persisted. security_index d = Some persisted \<Longrightarrow>
      fst (build_or_load_index c d) = Inr persisted \<and>
      security_index (snd (build_or_load_index c d)) = Some persisted \<and>
      embed_log (snd (build_or_load_index c d)) = embed_log d \<and>
      data_txt (snd (build_or_load_index c d)) = data_txt (d :: 'a disk)"
    by (simp add: build_or_load_index_def)
  have build: "security_index d = None \<longrightarrow>
      embed_log (snd (build_or_load_index c d)) =
        embed_log d @ [concat (map (\<lambda>(file, content). split_documents c content) (data_txt d))] \<and>
      (\<forall>vectors.
         embed_documents c
           (concat (map (\<lambda>(file, content). split_documents c content) (data_txt d))) =
           Inr vectors \<longrightarrow>
         security_index (snd (build_or_load_index c d)) =
           Some (zip (concat (map (\<lambda>(file, content). split_documents c content) (data_txt d)))
                   vectors) \<and>
         fst (build_or_load_index c d) = Inl persist_error)"
    by (auto simp: build_or_load_index_def Let_def split: sum.splits)
  show ?thesis
    using load[of d] load[of "snd (build_or_load_index c d)"] build by blast
qed

theorem C5_build_or_load_idempotent_witness:
  "security_index demo_disk = None \<and>
   security_index (snd (build_or_load_index demo_chroma demo_disk)) =
     Some [(py ''AC-2'', 4), (py '': IAM'', 5), (py ''audi'', 4), (py ''td'', 2)] \<and>
   fst (build_or_load_index demo_chroma (snd (build_or_load_index demo_chroma demo_disk))) =
     Inr [(py ''AC-2'', 4), (py '': IAM'', 5), (py ''audi'', 4), (py ''td'', 2)] \<and>
   security_index (snd (build_or_load_index demo_chroma
                         (snd (build_or_load_index demo_chroma demo_disk)))) =
     Some [(py ''AC-2'', 4), (py '': IAM'', 5), (py ''audi'', 4), (py ''td'', 2)] \<and>
   embed_log (snd (build_or_load_index demo_chroma
                    (snd (build_or_load_index demo_chroma demo_disk)))) =
     [[py ''AC-2'', py '': IAM'', py ''audi'', py ''td'']]"
proof -
  have n: "security_index demo_disk = None"
    by (simp add: demo_disk_def)
  have s: "concat (map (\<lambda>(file, content). split_documents demo_chroma content) (data_txt demo_disk)) =
             [py ''AC-2'', py '': IAM'', py ''audi'', py ''td'']"
    by (simp add: demo_disk_def demo_chroma_def py_def)
  have v: "embed_documents demo_chroma [py ''AC-2'', py '': IAM'', py ''audi'', py ''td''] =
             Inr [4, 5, 4, 2]"
    by (simp add: demo_chroma_def py_def)
  have l: "embed_log demo_disk = []"
    by (simp add: demo_disk_def)
  show ?thesis
    using C5_build_or_load_idempotent [of demo_disk demo_chroma] n s v l
    by simp
qed

section \<open>Counting and overlapping chunks\<close>

lemma chunks_short:
  "length d \<le> m \<Longrightarrow> chunks off m ov d = [(off, d)]"
  by simp

lemma chunks_long:
  "ov < m \<Longrightarrow> m < length d \<Longrightarrow>
   chunks off m ov d = (off, take m d) # chunks (off + (m - ov)) m ov (drop (m - ov) d)"
  by simp

declare chunks.simps [simp del]

lemma chunks_count:
  assumes "ov < m" and "ov < length d"
  shows "int (length (chunks off m ov d)) =
           \<lceil>(of_nat (length d) - of_nat ov) / (of_nat m - of_nat ov :: rat)\<rceil>"
  using assms
proof (induction off m ov d rule: chunks.induct)
  case (1 off m ov d)
  let ?s = "of_nat m - of_nat ov :: rat"
  have s: "0 < ?s" using 1(2) by simp
  show ?case
  proof (cases "length d \<le> m")
    case True
    have "0 < (of_nat (length d) - of_nat ov :: rat)" using 1(3) by simp
    moreover have "(of_nat (length d) - of_nat ov :: rat) \<le> ?s" using True by simp
    ultimately have "\<lceil>(of_nat (length d) - of_nat ov) / ?s\<rceil> = 1"
      using s by (simp add: ceiling_eq_iff)
    then show ?thesis using True by (simp add: chunks_short)
  next
    case False
    then have long: "m < length d" by simp
    have ov': "ov < length (drop (m - ov) d)" using long 1(2) by simp
    have ih: "int (length (chunks (off + (m - ov)) m ov (drop (m - ov) d))) =
           \<lceil>(of_nat (length (drop (m - ov) d)) - of_nat ov) / ?s\<rceil>"
      using 1(1) False 1(2) ov' by simp
    have "(of_nat (length (drop (m - ov) d)) - of_nat ov :: rat) =
            (of_nat (length d) - of_nat ov) - ?s"
      using long 1(2) by (simp add: of_nat_diff)
    then have "(of_nat (length (drop (m - ov) d)) - of_nat ov) / ?s =
            (of_nat (length d) - of_nat ov) / ?s - ?s / ?s"
      by (simp only: diff_divide_distrib)
    moreover have "?s / ?s = 1" using s by simp
    ultimately have "(of_nat (length (drop (m - ov) d)) - of_nat ov) / ?s =
            (of_nat (length d) - of_nat ov) / ?s - 1"
      by (simp only:)
    then have "\<lceil>(of_nat (length (drop (m - ov) d)) - of_nat ov) / ?s\<rceil> =
            \<lceil>(of_nat (length d) - of_nat ov) / ?s\<rceil> - 1"
      by simp
    then show ?thesis
      using ih chunks_long[OF 1(2) long, of off] by simp
  qed
qed

lemma chunks_not_last:
  assumes "ov < m"
  shows "Suc i < length (chunks off m ov d) \<Longrightarrow> i * (m - ov) + m < length d"
proof (induction i arbitrary: off d)
  case 0
  show ?case
  proof (rule ccontr)
    assume "\<not> 0 * (m - ov) + m < length d"
    then have "length d \<le> m" by simp
    then show False using 0 by (simp add: chunks_short)
  qed
next
  case (Suc i)
  have long: "m < length d"
  proof (rule ccontr)
    assume "\<not> m < length d"
    then have "length d \<le> m" by simp
    then show False using Suc(2) by (simp add: chunks_short)
  qed
  then have "Suc i < length (chunks (off + (m - ov)) m ov (drop (m - ov) d))"
    using Suc(2) chunks_long[OF assms long, of off] by simp
  then have "i * (m - ov) + m < length (drop (m - ov) d)"
    by (rule Suc.IH)
  then show ?case by simp
qed

lemma chunks_nth:
  assumes "ov < m"
  shows "i < length (chunks off m ov d) \<Longrightarrow>
         chunks off m ov d ! i = (off + i * (m - ov), take m (drop (i * (m - ov)) d))"
proof (induction i arbitrary: off d)
  case 0
  show ?case
  proof (cases "length d \<le> m")
    case True
    then show ?thesis by (simp add: chunks_short)
  next
    case False
    then show ?thesis using chunks_long[OF assms, of d off] by simp
  qed
next
  case (Suc i)
  have long: "m < length d"
  proof (rule ccontr)
    assume "\<not> m < length d"
    then have "length d \<le> m" by simp
    then show False using Suc(2) by (simp add: chunks_short)
  qed
  have c: "chunks off m ov d =
             (off, take m d) # chunks (off + (m - ov)) m ov (drop (m - ov) d)"
    using chunks_long[OF assms long] .
  then have "i < length (chunks (off + (m - ov)) m ov (drop (m - ov) d))"
    using Suc(2) by simp
  then have "chunks (off + (m - ov)) m ov (drop (m - ov) d) ! i =
               (off + (m - ov) + i * (m - ov), take m (drop (i * (m - ov)) (drop (m - ov) d)))"
    by (rule Suc.IH)
  then show ?case
    using c by (simp add: add.commute add.left_commute)
qed

lemma chunks_overlap:
  assumes "ov < m" and "Suc i < length (chunks off m ov d)"
  shows "length (snd (chunks off m ov d ! i)) = m"
    and "length (drop (m - ov) (snd (chunks off m ov d ! i))) = ov"
    and "drop (m - ov) (snd (chunks off m ov d ! i)) = take ov (snd (chunks off m ov d ! Suc i))"
proof -
  have i: "i < length (chunks off m ov d)" using assms(2) by simp
  have a: "snd (chunks off m ov d ! i) = take m (drop (i * (m - ov)) d)"
    using chunks_nth[OF assms(1) i] by simp
  have b: "snd (chunks off m ov d ! Suc i) = take m (drop (Suc i * (m - ov)) d)"
    using chunks_nth[OF assms(1) assms(2)] by simp
  have n: "i * (m - ov) + m < length d"
    using chunks_not_last[OF assms] .
  show l: "length (snd (chunks off m ov d ! i)) = m"
    using a n by simp
  show "length (drop (m - ov) (snd (chunks off m ov d ! i))) = ov"
    using l assms(1) by simp
  have "drop (m - ov) (take m (drop (i * (m - ov)) d)) =
          take ov (drop (m - ov + i * (m - ov)) d)"
    using assms(1) by (simp add: drop_take)
  also have "\<dots> = take ov (take m (drop (Suc i * (m - ov)) d))"
    using assms(1) by (simp add: min.absorb1)
  finally show "drop (m - ov) (snd (chunks off m ov d ! i)) =
                  take ov (snd (chunks off m ov d ! Suc i))"
    using a b by simp
qed

text \<open>
  C4, as the chunker has it. For an overlap smaller than the maximum the chunker returns
  chunks; when the document is longer than the overlap, there are
  \<open>\<lceil>(L - overlap) / (max - overlap)\<rceil>\<close> of them; the chunk number \<open>i\<close> is the window of
  \<open>max\<close> characters at offset \<open>i * (max - overlap)\<close>, so they are in document order; the last
  \<open>overlap\<close> characters of a chunk that has a successor are the first \<open>overlap\<close> characters
  of that successor; and a document no longer than \<open>max\<close> is one chunk.
\<close>

theorem C4_chunker:
  assumes "overlap_length < max_chunk_length"
  shows "\<exists>cs. chunker max_chunk_length overlap_length d = Inr cs \<and>
           (overlap_length < length d \<longrightarrow>
              int (length cs) =
                \<lceil>(of_nat (length d) - of_nat overlap_length) /
                 (of_nat max_chunk_length - of_nat overlap_length :: rat)\<rceil>) \<and>
           (\<forall>i < length cs.
              cs ! i = (i * (max_chunk_length - overlap_length),
                        take max_chunk_length (drop (i * (max_chunk_length - overlap_length)) d))) \<and>
           (\<forall>i. Suc i < length cs \<longrightarrow>
              length (snd (cs ! i)) = max_chunk_length \<and>
              length (drop (max_chunk_length - overlap_length) (snd (cs ! i))) = overlap_length \<and>
              drop (max_chunk_length - overlap_length) (snd (cs ! i)) =
                take overlap_length (snd (cs ! Suc i))) \<and>
           (length d \<le> max_chunk_length \<longrightarrow> cs = [(0, d)])"
proof -
  let ?cs = "chunks 0 max_chunk_length overlap_length d"
  have r: "chunker max_chunk_length overlap_length d = Inr ?cs"
    using assms by (simp add: chunker_def)
  have c: "overlap_length < length d \<longrightarrow>
              int (length ?cs) =
                \<lceil>(of_nat (length d) - of_nat overlap_length) /
                 (of_nat max_chunk_length - of_nat overlap_length :: rat)\<rceil>"
    using chunks_count[OF assms] by blast
  have n: "\<forall>i < length ?cs.
              ?cs ! i = (i * (max_chunk_length - overlap_length),
                        take max_chunk_length (drop (i * (max_chunk_length - overlap_length)) d))"
    using chunks_nth[OF assms, of _ 0 d] by simp
  have o: "\<forall>i. Suc i < length ?cs \<longrightarrow>
              length (snd (?cs ! i)) = max_chunk_length \<and>
              length (drop (max_chunk_length - overlap_length) (snd (?cs ! i))) = overlap_length \<and>
              drop (max_chunk_length - overlap_length) (snd (?cs ! i)) =
                take overlap_length (snd (?cs ! Suc i))"
    using chunks_overlap[OF assms] by blast
  have s: "length d \<le> max_chunk_length \<longrightarrow> ?cs = [(0, d)]"
    by (simp add: chunks_short)
  show ?thesis
    using r c n o s by blast
qed

theorem C4_chunker_witness:
  "(3::nat) < 10 \<and>
   chunker 10 3 (py ''AC-2: enforce least privilege.'') =
     Inr [(0, py ''AC-2: enfo''), (7, py ''nforce lea''), (14, py ''least priv''),
          (21, py ''rivilege.'')] \<and>
   \<lceil>(of_nat (length (py ''AC-2: enforce least privilege.'')) - of_nat 3) /
    (of_nat 10 - of_nat 3 :: rat)\<rceil> = 4"
proof -
  have h: "(3::nat) < 10" by simp
  have c: "chunker 10 3 (py ''AC-2: enforce least privilege.'') =
     Inr [(0, py ''AC-2: enfo''), (7, py ''nforce lea''), (14, py ''least priv''),
          (21, py ''rivilege.'')]"
    by (simp add: chunker_def py_def chunks.simps)
  have l: "length (py ''AC-2: enforce least privilege.'') = 30"
    by (simp add: py_def)
  show ?thesis
    using C4_chunker [OF h, of "py ''AC-2: enforce least privilege.''"] c l
    by auto
qed

text \<open>
  C4 as stated fails: with the configuration of the source, a document of two characters
  is one chunk, and the formula gives none.
\<close>

theorem C4_short_document:
  "chunker 1000 100 (py ''ab'') = Inr [(0, py ''ab'')] \<and>
   int (length [(0::nat, py ''ab'')]) \<noteq>
     \<lceil>(of_nat (length (py ''ab'')) - of_nat 100) / (of_nat 1000 - of_nat 100 :: rat)\<rceil>"
proof -
  have "\<lceil>((2::rat) - 100) / (1000 - 100)\<rceil> = 0"
    by (simp add: ceiling_eq_iff)
  then show ?thesis
    by (simp add: chunker_def py_def chunks.simps)
qed

end
